theory Spec2Isabelle
  imports Main
begin

section \<open>The simplified chat application (backend/simple\_app.py)\<close>

text \<open>
  The module keeps one global dictionary \<open>sessions\<close> from session id to a list of
  exchanges, and serves three endpoints. The only collaborators are the process
  environment (\<open>os.getenv\<close>) and the Anthropic client (\<open>messages.create\<close>); both are
  parameters of the model. Every \<open>raise\<close> of the source is a value of a sum type, the
  global dictionary is passed in and returned, and the calls made to the client during a
  request are returned as a list, so that "the generation capability was invoked" can be
  stated.
\<close>

subsection \<open>Data\<close>

text \<open>The request and response models (pydantic classes of the source).\<close>

record QueryRequest =
  query :: string
  session_id :: "string option"

record QueryResponse =
  answer :: string
  sources :: "string list"
  response_session_id :: string

record CourseStats =
  total_courses :: int
  course_titles :: "string list"

text \<open>One stored exchange: the dictionary \<open>{"user": ..., "assistant": ...}\<close>.\<close>

record exchange =
  user :: string
  assistant :: string

text \<open>One entry of the message list: the dictionary \<open>{"role": ..., "content": ...}\<close>.\<close>

record message =
  role :: string
  content :: string

text \<open>The keyword arguments of \<open>anthropic_client.messages.create\<close>.\<close>

record create_args =
  model :: string
  max_tokens :: nat
  temperature :: int
  system :: string
  messages :: "message list"

text \<open>
  What can be raised inside the \<open>try\<close> block of \<open>query_documents\<close>: the
  \<open>HTTPException\<close> of the key check, whatever the client raises (kept as the text of
  that exception), and the \<open>IndexError\<close> of \<open>response.content[0]\<close> on an empty content
  list.
\<close>

datatype raised =
  HTTPException nat string
| ClientError string
| IndexError

text \<open>
  What leaves the handler: \<open>HTTPException(status_code=..., detail=str(e))\<close>. The detail
  is kept as the caught exception itself, standing for its \<open>str\<close>.
\<close>

datatype http_error = HTTPError (status_code: nat) (detail_str_of: raised)

text \<open>
  The collaborators: \<open>os.getenv\<close>, and \<open>messages.create\<close>, which either raises or
  returns a response whose content is a list of text blocks.
\<close>

record env =
  getenv :: "string \<Rightarrow> string option"
  messages_create :: "create_args \<Rightarrow> raised + string list"

type_synonym sessions = "string \<rightharpoonup> exchange list"

text \<open>
  The outcome of one request: the response or the error, the session dictionary after
  the request, and the calls made to \<open>messages.create\<close> while serving it.
\<close>

record outcome =
  result :: "http_error + QueryResponse"
  sessions_after :: sessions
  create_calls :: "create_args list"

subsection \<open>The query endpoint\<close>

definition system_prompt :: string where
  "system_prompt =
     ''You are a helpful AI assistant. You can answer questions about various topics. \<newline>'' @
     ''        Since the full RAG system is not yet set up, you should use your general knowledge to provide helpful responses.\<newline>'' @
     ''        \<newline>'' @
     ''        Note: The vector search functionality is not available yet, so you'' @ [CHR 0x27] @
     ''re responding based on your training data.''"

text \<open>\<open>not os.getenv(name)\<close>: the variable is unset, or set to the empty string.\<close>

definition not_getenv :: "env \<Rightarrow> string \<Rightarrow> bool" where
  "not_getenv e name = (case getenv e name of None \<Rightarrow> True | Some v \<Rightarrow> v = [])"

text \<open>\<open>request.session_id or "default"\<close>: \<open>None\<close> and the empty string are falsy.\<close>

definition session_id_or_default :: "QueryRequest \<Rightarrow> string" where
  "session_id_or_default request =
     (case session_id request of
        None \<Rightarrow> ''default''
      | Some s \<Rightarrow> if s = [] then ''default'' else s)"

text \<open>\<open>sessions.get(session_id, [])\<close>.\<close>

definition sessions_get :: "sessions \<Rightarrow> string \<Rightarrow> exchange list" where
  "sessions_get ss sid = (case ss sid of None \<Rightarrow> [] | Some h \<Rightarrow> h)"

text \<open>The slice \<open>history[-3:]\<close>: the last three elements, or all of them when there are fewer.\<close>

definition last3 :: "'a list \<Rightarrow> 'a list" where
  "last3 xs = drop (length xs - 3) xs"

text \<open>The loop over the slice: two messages are appended for each exchange.\<close>

primrec append_exchanges :: "message list \<Rightarrow> exchange list \<Rightarrow> message list" where
  "append_exchanges msgs [] = msgs"
| "append_exchanges msgs (ex # exs) =
     append_exchanges
       (msgs @ [\<lparr>role = ''user'', content = user ex\<rparr>,
                \<lparr>role = ''assistant'', content = assistant ex\<rparr>]) exs"

definition build_messages :: "exchange list \<Rightarrow> string \<Rightarrow> message list" where
  "build_messages history q =
     append_exchanges [] (last3 history) @ [\<lparr>role = ''user'', content = q\<rparr>]"

definition build_create_args :: "exchange list \<Rightarrow> string \<Rightarrow> create_args" where
  "build_create_args history q =
     \<lparr>model = ''claude-3-sonnet-20240229'', max_tokens = 800, temperature = 0,
      system = system_prompt, messages = build_messages history q\<rparr>"

text \<open>
  \<open>if session_id not in sessions: sessions[session_id] = []\<close> followed by
  \<open>sessions[session_id].append(...)\<close>.
\<close>

definition store_exchange :: "sessions \<Rightarrow> string \<Rightarrow> exchange \<Rightarrow> sessions" where
  "store_exchange ss sid ex =
     (let ss1 = (if sid \<notin> dom ss then ss(sid \<mapsto> []) else ss)
      in ss1(sid \<mapsto> sessions_get ss1 sid @ [ex]))"

definition general_knowledge_source :: string where
  "general_knowledge_source = ''General AI Knowledge (RAG system not fully initialized)''"

text \<open>The \<open>except Exception as e\<close> handler: status 500, nothing written to the sessions.\<close>

definition handler :: "raised \<Rightarrow> sessions \<Rightarrow> create_args list \<Rightarrow> outcome" where
  "handler e ss calls =
     \<lparr>result = Inl (HTTPError 500 e), sessions_after = ss, create_calls = calls\<rparr>"

definition query_documents :: "env \<Rightarrow> sessions \<Rightarrow> QueryRequest \<Rightarrow> outcome" where
  "query_documents e ss request =
     (if not_getenv e ''ANTHROPIC_API_KEY'' then
        handler
          (HTTPException 500
             ''Anthropic API key not configured. Please add ANTHROPIC_API_KEY to your .env file.'')
          ss []
      else
        let sid = session_id_or_default request;
            history = sessions_get ss sid;
            args = build_create_args history (query request)
        in case messages_create e args of
             Inl err \<Rightarrow> handler err ss [args]
           | Inr blocks \<Rightarrow>
               (case blocks of
                  [] \<Rightarrow> handler IndexError ss [args]
                | answer_text # _ \<Rightarrow>
                    \<lparr>result = Inr \<lparr>answer = answer_text,
                                   sources = [general_knowledge_source],
                                   response_session_id = sid\<rparr>,
                     sessions_after =
                       store_exchange ss sid \<lparr>user = query request, assistant = answer_text\<rparr>,
                     create_calls = [args]\<rparr>))"

text \<open>A sequence of requests served one after the other on the same process.\<close>

primrec serve_all :: "env \<Rightarrow> sessions \<Rightarrow> QueryRequest list \<Rightarrow> sessions" where
  "serve_all e ss [] = ss"
| "serve_all e ss (r # rs) = serve_all e (sessions_after (query_documents e ss r)) rs"

subsection \<open>The course statistics endpoint\<close>

definition get_course_stats :: CourseStats where
  "get_course_stats =
     \<lparr>total_courses = 0,
      course_titles =
        [''Full RAG system not initialized - install ChromaDB and sentence-transformers to enable course search'']\<rparr>"


subsection \<open>The spec's wording, for comparison\<close>

text \<open>
  The spec's message list: each exchange is one user/assistant turn pair, in the original
  order, followed by the current query.
\<close>

definition spec_turn_pair :: "exchange \<Rightarrow> message list" where
  "spec_turn_pair ex =
     [\<lparr>role = ''user'', content = user ex\<rparr>, \<lparr>role = ''assistant'', content = assistant ex\<rparr>]"

definition spec_message_list :: "exchange list \<Rightarrow> string \<Rightarrow> message list" where
  "spec_message_list history q =
     concat (map spec_turn_pair history) @ [\<lparr>role = ''user'', content = q\<rparr>]"

text \<open>The spec's source label: \<open>course_title - lesson_title\<close>.\<close>

definition spec_source_label :: "string \<Rightarrow> string \<Rightarrow> string" where
  "spec_source_label course_title lesson_title = course_title @ '' - '' @ lesson_title"

text \<open>A string can only be such a label when the separator occurs in it.\<close>

fun spec_label_form :: "string \<Rightarrow> bool" where
  "spec_label_form [] = False"
| "spec_label_form (c # cs) = (take 3 (c # cs) = '' - '' \<or> spec_label_form cs)"

text \<open>
  Appending with no eviction, for comparison with the stored history: one exchange per
  query, in the order of the queries, added at the end; each answer is the reply to the
  call built from the history as it is at that moment.
\<close>

primrec appended_history ::
  "(create_args \<Rightarrow> string) \<Rightarrow> exchange list \<Rightarrow> string list \<Rightarrow> exchange list" where
  "appended_history reply h [] = h"
| "appended_history reply h (q # qs) =
     appended_history reply
       (h @ [\<lparr>user = q, assistant = reply (build_create_args h q)\<rparr>]) qs"

subsection \<open>Concrete environments and requests\<close>

text \<open>
  The key is set and the client answers every call with one text block (the mocked
  client of the test suite answers \<open>Test response\<close>).
\<close>

definition env_ok :: env where
  "env_ok =
     \<lparr>getenv = (\<lambda>name. if name = ''ANTHROPIC_API_KEY'' then Some ''sk-test'' else None),
      messages_create = (\<lambda>args. Inr [''Test response''])\<rparr>"

text \<open>The key is set and the client raises on every call.\<close>

definition env_client_raises :: env where
  "env_client_raises =
     \<lparr>getenv = (\<lambda>name. if name = ''ANTHROPIC_API_KEY'' then Some ''sk-test'' else None),
      messages_create = (\<lambda>args. Inl (ClientError ''Test error''))\<rparr>"

text \<open>The key is not set.\<close>

definition env_no_key :: env where
  "env_no_key =
     \<lparr>getenv = (\<lambda>name. None),
      messages_create = (\<lambda>args. Inr [''Test response''])\<rparr>"

definition request_on :: "string \<Rightarrow> string \<Rightarrow> QueryRequest" where
  "request_on sid q = \<lparr>query = q, session_id = Some sid\<rparr>"

definition request_without_session :: "string \<Rightarrow> QueryRequest" where
  "request_without_session q = \<lparr>query = q, session_id = None\<rparr>"

definition four_requests :: "QueryRequest list" where
  "four_requests = map (request_on ''s'') [''q1'', ''q2'', ''q3'', ''q4'']"

definition seven_requests :: "QueryRequest list" where
  "seven_requests =
     map (request_on ''s'') [''q1'', ''q2'', ''q3'', ''q4'', ''q5'', ''q6'', ''q7'']"

section \<open>Properties\<close>

subsection \<open>The branches of the query endpoint\<close>

lemma not_getenv_env_ok [simp]: "\<not> not_getenv env_ok ''ANTHROPIC_API_KEY''"
  by (simp add: not_getenv_def env_ok_def)

lemma not_getenv_env_client_raises [simp]:
  "\<not> not_getenv env_client_raises ''ANTHROPIC_API_KEY''"
  by (simp add: not_getenv_def env_client_raises_def)

lemma messages_create_env_ok [simp]: "messages_create env_ok args = Inr [''Test response'']"
  by (simp add: env_ok_def)

lemma messages_create_env_client_raises [simp]:
  "messages_create env_client_raises args = Inl (ClientError ''Test error'')"
  by (simp add: env_client_raises_def)

lemma not_getenv_env_no_key [simp]: "not_getenv env_no_key ''ANTHROPIC_API_KEY''"
  by (simp add: not_getenv_def env_no_key_def)

lemma query_documents_no_key:
  assumes "not_getenv e ''ANTHROPIC_API_KEY''"
  shows "query_documents e ss request =
           handler
             (HTTPException 500
                ''Anthropic API key not configured. Please add ANTHROPIC_API_KEY to your .env file.'')
             ss []"
  using assms by (simp add: query_documents_def)

lemma query_documents_raises:
  assumes "\<not> not_getenv e ''ANTHROPIC_API_KEY''"
    and "messages_create e
           (build_create_args (sessions_get ss (session_id_or_default request)) (query request))
         = Inl err"
  shows "query_documents e ss request =
           handler err ss
             [build_create_args (sessions_get ss (session_id_or_default request)) (query request)]"
  using assms by (simp add: query_documents_def Let_def)

lemma query_documents_no_content:
  assumes "\<not> not_getenv e ''ANTHROPIC_API_KEY''"
    and "messages_create e
           (build_create_args (sessions_get ss (session_id_or_default request)) (query request))
         = Inr []"
  shows "query_documents e ss request =
           handler IndexError ss
             [build_create_args (sessions_get ss (session_id_or_default request)) (query request)]"
  using assms by (simp add: query_documents_def Let_def)

lemma query_documents_answers:
  assumes "\<not> not_getenv e ''ANTHROPIC_API_KEY''"
    and "messages_create e
           (build_create_args (sessions_get ss (session_id_or_default request)) (query request))
         = Inr (t # ts)"
  shows "query_documents e ss request =
           \<lparr>result = Inr \<lparr>answer = t, sources = [general_knowledge_source],
                          response_session_id = session_id_or_default request\<rparr>,
            sessions_after =
              store_exchange ss (session_id_or_default request)
                \<lparr>user = query request, assistant = t\<rparr>,
            create_calls =
              [build_create_args (sessions_get ss (session_id_or_default request))
                 (query request)]\<rparr>"
  using assms by (simp add: query_documents_def Let_def)

lemma create_calls_query_documents:
  assumes "\<not> not_getenv e ''ANTHROPIC_API_KEY''"
  shows "create_calls (query_documents e ss request) =
           [build_create_args (sessions_get ss (session_id_or_default request)) (query request)]"
  using assms
  by (simp add: query_documents_def Let_def handler_def split: sum.split list.split)

lemma result_Inr_query_documents:
  assumes "result (query_documents e ss request) = Inr resp"
  shows "sources resp = [general_knowledge_source]
         \<and> response_session_id resp = session_id_or_default request"
  using assms
  by (auto simp: query_documents_def Let_def handler_def split: if_splits sum.splits list.splits)

subsection \<open>The session dictionary\<close>

lemma sessions_get_store_exchange:
  "sessions_get (store_exchange ss sid ex) sid' =
     (if sid' = sid then sessions_get ss sid @ [ex] else sessions_get ss sid')"
  by (auto simp: store_exchange_def sessions_get_def Let_def domIff)

lemma store_exchange_same:
  "store_exchange ss sid ex sid = Some (sessions_get ss sid @ [ex])"
  by (auto simp: store_exchange_def sessions_get_def Let_def domIff)

lemma store_exchange_other:
  "sid' \<noteq> sid \<Longrightarrow> store_exchange ss sid ex sid' = ss sid'"
  by (simp add: store_exchange_def Let_def)

lemma sessions_after_handler [simp]: "sessions_after (handler err ss calls) = ss"
  by (simp add: handler_def)

lemma sessions_get_empty [simp]: "sessions_get Map.empty sid = []"
  by (simp add: sessions_get_def)

lemma sessions_get_None: "ss sid = None \<Longrightarrow> sessions_get ss sid = []"
  by (simp add: sessions_get_def)

lemma history_after_four_requests:
  "sessions_get (serve_all env_ok Map.empty four_requests) ''s'' =
     [\<lparr>user = ''q1'', assistant = ''Test response''\<rparr>,
      \<lparr>user = ''q2'', assistant = ''Test response''\<rparr>,
      \<lparr>user = ''q3'', assistant = ''Test response''\<rparr>,
      \<lparr>user = ''q4'', assistant = ''Test response''\<rparr>]"
  by (simp add: four_requests_def request_on_def session_id_or_default_def
      query_documents_answers sessions_get_store_exchange)

subsection \<open>The message list\<close>

lemma append_exchanges_concat:
  "append_exchanges msgs exs = msgs @ concat (map spec_turn_pair exs)"
  by (induction exs arbitrary: msgs) (simp_all add: spec_turn_pair_def)

lemma build_messages_last3:
  "build_messages history q = spec_message_list (last3 history) q"
  by (simp add: build_messages_def spec_message_list_def append_exchanges_concat)

lemma last3_short: "length xs \<le> 3 \<Longrightarrow> last3 xs = xs"
  by (simp add: last3_def)

lemma length_last3: "length (last3 xs) = min 3 (length xs)"
  by (simp add: last3_def)

lemma spec_label_form_append: "spec_label_form ('' - '' @ l)"
  by simp

lemma spec_label_form_source_label: "spec_label_form (spec_source_label c l)"
  unfolding spec_source_label_def by (induction c) simp_all

subsection \<open>Stored history\<close>

lemma length_appended_history:
  "length (appended_history reply h qs) = length h + length qs"
  by (induction qs arbitrary: h) simp_all

lemma map_user_appended_history:
  "map user (appended_history reply h qs) = map user h @ qs"
  by (induction qs arbitrary: h) simp_all

lemma history_after_request:
  assumes "\<not> not_getenv e ''ANTHROPIC_API_KEY''"
    and "\<forall>args. \<exists>ts. messages_create e args = Inr (reply args # ts)"
  shows "sessions_get (sessions_after (query_documents e ss r)) sid =
           (if session_id_or_default r = sid
            then sessions_get ss sid @
                 [\<lparr>user = query r,
                   assistant = reply (build_create_args (sessions_get ss sid) (query r))\<rparr>]
            else sessions_get ss sid)"
proof -
  from assms(2) obtain ts where
    "messages_create e
       (build_create_args (sessions_get ss (session_id_or_default r)) (query r)) =
     Inr (reply (build_create_args (sessions_get ss (session_id_or_default r)) (query r)) # ts)"
    by blast
  from query_documents_answers [OF assms(1) this] show ?thesis
    by (simp add: sessions_get_store_exchange)
qed

lemma history_after_serve_all:
  assumes "\<not> not_getenv e ''ANTHROPIC_API_KEY''"
    and "\<forall>args. \<exists>ts. messages_create e args = Inr (reply args # ts)"
  shows "sessions_get (serve_all e ss rs) sid =
           appended_history reply (sessions_get ss sid)
             (map query (filter (\<lambda>r. session_id_or_default r = sid) rs))"
proof (induction rs arbitrary: ss)
  case Nil
  show ?case by simp
next
  case (Cons r rs)
  show ?case
    by (simp add: Cons.IH history_after_request [OF assms])
qed

lemma history_kept_by_request:
  "\<exists>new. sessions_get (sessions_after (query_documents e ss r)) sid = sessions_get ss sid @ new"
  by (simp add: query_documents_def Let_def sessions_get_store_exchange
      split: sum.split list.split)

lemma history_kept_by_serve_all:
  "\<exists>new. sessions_get (serve_all e ss rs) sid = sessions_get ss sid @ new"
proof (induction rs arbitrary: ss)
  case Nil
  show ?case by simp
next
  case (Cons r rs)
  obtain new1 where step:
    "sessions_get (sessions_after (query_documents e ss r)) sid = sessions_get ss sid @ new1"
    using history_kept_by_request by blast
  obtain new2 where rest:
    "sessions_get (serve_all e (sessions_after (query_documents e ss r)) rs) sid =
       sessions_get (sessions_after (query_documents e ss r)) sid @ new2"
    using Cons.IH by blast
  from step rest show ?case by simp
qed

section \<open>The claims\<close>

subsection \<open>C1: the stored history\<close>

text \<open>
  Claim C1, as amended. The stored history of a session is not capped and nothing is ever
  evicted. When the key is configured and the client answers every call, serving any
  sequence of requests leaves, under every session id, the history stored before followed
  by one exchange for each request of that session, in the order of arrival; each exchange
  holds the query of its request and the answer the client gave to the call built from the
  history at that moment. So the stored history grows by exactly one exchange for each
  such request, the queries appear in order, and what was stored before is still there,
  first and unchanged.
\<close>

theorem history_grows_without_eviction:
  assumes "\<not> not_getenv e ''ANTHROPIC_API_KEY''"
    and "\<forall>args. \<exists>ts. messages_create e args = Inr (reply args # ts)"
  shows "sessions_get (serve_all e ss rs) sid =
           appended_history reply (sessions_get ss sid)
             (map query (filter (\<lambda>r. session_id_or_default r = sid) rs))
         \<and> sessions_get (sessions_after (query_documents e ss r)) (session_id_or_default r) =
             sessions_get ss (session_id_or_default r) @
             [\<lparr>user = query r,
               assistant =
                 reply (build_create_args (sessions_get ss (session_id_or_default r)) (query r))\<rparr>]
         \<and> length (sessions_get (serve_all e ss rs) sid) =
             length (sessions_get ss sid) +
             length (filter (\<lambda>r. session_id_or_default r = sid) rs)
         \<and> map user (sessions_get (serve_all e ss rs) sid) =
             map user (sessions_get ss sid) @
             map query (filter (\<lambda>r. session_id_or_default r = sid) rs)
         \<and> take (length (sessions_get ss sid)) (sessions_get (serve_all e ss rs) sid) =
             sessions_get ss sid"
proof (intro conjI)
  show all: "sessions_get (serve_all e ss rs) sid =
           appended_history reply (sessions_get ss sid)
             (map query (filter (\<lambda>r. session_id_or_default r = sid) rs))"
    by (rule history_after_serve_all [OF assms])
  show "sessions_get (sessions_after (query_documents e ss r)) (session_id_or_default r) =
             sessions_get ss (session_id_or_default r) @
             [\<lparr>user = query r,
               assistant =
                 reply (build_create_args (sessions_get ss (session_id_or_default r)) (query r))\<rparr>]"
    by (simp add: history_after_request [OF assms])
  show "length (sessions_get (serve_all e ss rs) sid) =
             length (sessions_get ss sid) +
             length (filter (\<lambda>r. session_id_or_default r = sid) rs)"
    by (simp add: all length_appended_history)
  show "map user (sessions_get (serve_all e ss rs) sid) =
             map user (sessions_get ss sid) @
             map query (filter (\<lambda>r. session_id_or_default r = sid) rs)"
    by (simp add: all map_user_appended_history)
  obtain new where "sessions_get (serve_all e ss rs) sid = sessions_get ss sid @ new"
    using history_kept_by_serve_all by blast
  then show "take (length (sessions_get ss sid)) (sessions_get (serve_all e ss rs) sid) =
             sessions_get ss sid"
    by simp
qed

text \<open>
  The witness of C1: seven requests on session \<open>s\<close>, starting from no sessions; all
  seven exchanges are stored, each with its query and the answer of the client.
\<close>

theorem history_grows_without_eviction_witness:
  "sessions_get (serve_all env_ok Map.empty seven_requests) ''s'' =
     [\<lparr>user = ''q1'', assistant = ''Test response''\<rparr>,
      \<lparr>user = ''q2'', assistant = ''Test response''\<rparr>,
      \<lparr>user = ''q3'', assistant = ''Test response''\<rparr>,
      \<lparr>user = ''q4'', assistant = ''Test response''\<rparr>,
      \<lparr>user = ''q5'', assistant = ''Test response''\<rparr>,
      \<lparr>user = ''q6'', assistant = ''Test response''\<rparr>,
      \<lparr>user = ''q7'', assistant = ''Test response''\<rparr>]"
  using history_grows_without_eviction
    [where e = env_ok and reply = "\<lambda>args. ''Test response''" and ss = Map.empty
       and rs = seven_requests and sid = "''s''"]
  by (simp add: seven_requests_def request_on_def session_id_or_default_def)

text \<open>
  Claim C1 as stated fails: with a cap of 5 (the value of the test configuration), seven
  answered requests on one session leave more than 5 exchanges stored.
\<close>

theorem history_cap_counterexample:
  "\<not> length (sessions_get (serve_all env_ok Map.empty seven_requests) ''s'') \<le> 5"
  by (simp add: seven_requests_def request_on_def session_id_or_default_def
      query_documents_answers sessions_get_store_exchange)

subsection \<open>C2: answering without retrieval\<close>

text \<open>
  Claim C2, as amended. The program has no vector store, so no chunk is ever retrieved.
  When the key is configured and the client returns at least one text block, the request
  succeeds, the client has been called exactly once, with the fixed system prompt, and the
  list of sources is the one fixed label, not the empty list.
\<close>

theorem answer_without_retrieval:
  assumes "\<not> not_getenv e ''ANTHROPIC_API_KEY''"
    and "messages_create e
           (build_create_args (sessions_get ss (session_id_or_default request)) (query request))
         = Inr (t # ts)"
  shows "result (query_documents e ss request) =
           Inr \<lparr>answer = t, sources = [general_knowledge_source],
                response_session_id = session_id_or_default request\<rparr>
         \<and> create_calls (query_documents e ss request) =
             [build_create_args (sessions_get ss (session_id_or_default request)) (query request)]
         \<and> system (build_create_args (sessions_get ss (session_id_or_default request))
                      (query request)) = system_prompt"
  using query_documents_answers [OF assms] by (simp add: build_create_args_def)

text \<open>
  The witness of C2: a first request without session id.
\<close>

theorem answer_without_retrieval_witness:
  "result (query_documents env_ok Map.empty (request_without_session ''What is Python?'')) =
     Inr \<lparr>answer = ''Test response'', sources = [general_knowledge_source],
          response_session_id = ''default''\<rparr>
   \<and> create_calls (query_documents env_ok Map.empty (request_without_session ''What is Python?'')) =
       [build_create_args [] ''What is Python?'']"
  using answer_without_retrieval
    [of env_ok Map.empty "request_without_session ''What is Python?''" "''Test response''" "[]"]
  by (simp add: request_without_session_def session_id_or_default_def)

text \<open>
  Claim C2 as stated fails: the answer of a request served with nothing retrieved
  carries a non-empty list of sources.
\<close>

theorem empty_sources_counterexample:
  "result (query_documents env_ok Map.empty (request_without_session ''What is Python?'')) =
     Inr \<lparr>answer = ''Test response'', sources = [general_knowledge_source],
          response_session_id = ''default''\<rparr>
   \<and> [general_knowledge_source] \<noteq> []"
  by (simp add: query_documents_answers request_without_session_def session_id_or_default_def)

subsection \<open>C3: the message list\<close>

text \<open>
  Claim C3, as amended. When the key is configured, the client is called with the
  message list built from the last three stored exchanges of the session (all of them when
  at most three are stored), each as one user/assistant pair in the original order, followed
  by the current query.
\<close>

theorem messages_from_last_three_exchanges:
  assumes "\<not> not_getenv e ''ANTHROPIC_API_KEY''"
  shows "map messages (create_calls (query_documents e ss request)) =
           [spec_message_list (last3 (sessions_get ss (session_id_or_default request)))
              (query request)]
         \<and> length (last3 (sessions_get ss (session_id_or_default request))) =
             min 3 (length (sessions_get ss (session_id_or_default request)))
         \<and> (length (sessions_get ss (session_id_or_default request)) \<le> 3 \<longrightarrow>
              map messages (create_calls (query_documents e ss request)) =
                [spec_message_list (sessions_get ss (session_id_or_default request))
                   (query request)])"
  by (simp add: create_calls_query_documents [OF assms] build_create_args_def
      build_messages_last3 length_last3 last3_short)

text \<open>
  The witness of C3: the fifth request of a session; the first exchange is left out.
\<close>

theorem messages_from_last_three_exchanges_witness:
  "map messages
     (create_calls
        (query_documents env_ok (serve_all env_ok Map.empty four_requests)
           (request_on ''s'' ''q5''))) =
     [[\<lparr>role = ''user'', content = ''q2''\<rparr>, \<lparr>role = ''assistant'', content = ''Test response''\<rparr>,
       \<lparr>role = ''user'', content = ''q3''\<rparr>, \<lparr>role = ''assistant'', content = ''Test response''\<rparr>,
       \<lparr>role = ''user'', content = ''q4''\<rparr>, \<lparr>role = ''assistant'', content = ''Test response''\<rparr>,
       \<lparr>role = ''user'', content = ''q5''\<rparr>]]"
  using messages_from_last_three_exchanges
    [of env_ok "serve_all env_ok Map.empty four_requests" "request_on ''s'' ''q5''"]
  by (simp add: request_on_def session_id_or_default_def history_after_four_requests
      last3_def spec_message_list_def spec_turn_pair_def)

text \<open>
  Claim C3 as stated fails: with four exchanges stored, the message list is not the one
  built from all the stored exchanges.
\<close>

theorem all_retained_exchanges_counterexample:
  "map messages
     (create_calls
        (query_documents env_ok (serve_all env_ok Map.empty four_requests)
           (request_on ''s'' ''q5''))) \<noteq>
     [spec_message_list (sessions_get (serve_all env_ok Map.empty four_requests) ''s'') ''q5'']"
  by (simp add: create_calls_query_documents build_create_args_def build_messages_last3
      request_on_def session_id_or_default_def history_after_four_requests
      last3_def spec_message_list_def spec_turn_pair_def)

subsection \<open>C4: a failing client\<close>

text \<open>
  Claim C4. When the client raises, the request ends with the error of status 500 that
  carries the text of the raised exception, the client has been called once (no retry), and
  the sessions are unchanged.
\<close>

theorem generation_failure_is_terminal:
  assumes "\<not> not_getenv e ''ANTHROPIC_API_KEY''"
    and "messages_create e
           (build_create_args (sessions_get ss (session_id_or_default request)) (query request))
         = Inl err"
  shows "result (query_documents e ss request) = Inl (HTTPError 500 err)
         \<and> length (create_calls (query_documents e ss request)) = 1
         \<and> sessions_after (query_documents e ss request) = ss"
  using query_documents_raises [OF assms] by (simp add: handler_def)

text \<open>
  The witness of C4: the client raises on the fifth request of a session.
\<close>

theorem generation_failure_is_terminal_witness:
  "result (query_documents env_client_raises (serve_all env_ok Map.empty four_requests)
             (request_on ''s'' ''q5'')) = Inl (HTTPError 500 (ClientError ''Test error''))
   \<and> length (create_calls (query_documents env_client_raises
        (serve_all env_ok Map.empty four_requests) (request_on ''s'' ''q5''))) = 1
   \<and> sessions_after (query_documents env_client_raises
        (serve_all env_ok Map.empty four_requests) (request_on ''s'' ''q5'')) =
       serve_all env_ok Map.empty four_requests"
  using generation_failure_is_terminal
    [of env_client_raises "serve_all env_ok Map.empty four_requests" "request_on ''s'' ''q5''"
        "ClientError ''Test error''"]
  by simp

subsection \<open>C5: the session id of the response\<close>

text \<open>
  Claim C5, as amended. A successful response carries the session id of the request when
  that id is a non-empty string, and the fixed id \<open>default\<close> when the request has no
  session id or an empty one.
\<close>

theorem response_session_id_echo_or_default:
  assumes "result (query_documents e ss request) = Inr resp"
  shows "(\<forall>s. session_id request = Some s \<and> s \<noteq> [] \<longrightarrow> response_session_id resp = s)
         \<and> (session_id request = None \<or> session_id request = Some [] \<longrightarrow>
              response_session_id resp = ''default'')"
  using result_Inr_query_documents [OF assms]
  by (auto simp: session_id_or_default_def)

text \<open>
  The witness of C5: a request with the session id of the test suite.
\<close>

theorem response_session_id_echo_or_default_witness:
  "result (query_documents env_ok Map.empty (request_on ''test-session-123'' ''What is Python?'')) =
     Inr \<lparr>answer = ''Test response'', sources = [general_knowledge_source],
          response_session_id = ''test-session-123''\<rparr>
   \<and> response_session_id
        \<lparr>answer = ''Test response'', sources = [general_knowledge_source],
         response_session_id = ''test-session-123''\<rparr> = ''test-session-123''"
  using response_session_id_echo_or_default
    [of env_ok Map.empty "request_on ''test-session-123'' ''What is Python?''"
        "\<lparr>answer = ''Test response'', sources = [general_knowledge_source],
          response_session_id = ''test-session-123''\<rparr>"]
  by (simp add: query_documents_answers request_on_def session_id_or_default_def)

text \<open>
  Claim C5 as stated fails: a second request without session id is answered with the id
  \<open>default\<close>, which is the id of a session that already exists; and a request whose
  session id is the empty string is answered with \<open>default\<close>, not with its own id.
\<close>

theorem fresh_session_id_counterexample:
  "result (query_documents env_ok
             (serve_all env_ok Map.empty [request_without_session ''What is Python?''])
             (request_without_session ''How do variables work?'')) =
     Inr \<lparr>answer = ''Test response'', sources = [general_knowledge_source],
          response_session_id = ''default''\<rparr>
   \<and> ''default'' \<in> dom (serve_all env_ok Map.empty [request_without_session ''What is Python?''])
   \<and> result (query_documents env_ok Map.empty \<lparr>query = ''What is Python?'', session_id = Some []\<rparr>) =
     Inr \<lparr>answer = ''Test response'', sources = [general_knowledge_source],
          response_session_id = ''default''\<rparr>"
  by (simp add: query_documents_answers request_without_session_def session_id_or_default_def
      store_exchange_same domIff)

subsection \<open>C6: the source labels\<close>

text \<open>
  Claim C6, as amended. Every successful response carries exactly one source label, the
  fixed text \<open>General AI Knowledge (RAG system not fully initialized)\<close>; the list has
  no duplicates.
\<close>

theorem sources_is_fixed_label:
  assumes "result (query_documents e ss request) = Inr resp"
  shows "sources resp = [general_knowledge_source] \<and> distinct (sources resp)"
  using result_Inr_query_documents [OF assms] by simp

text \<open>
  The witness of C6: the fifth request of a session.
\<close>

theorem sources_is_fixed_label_witness:
  "result (query_documents env_ok (serve_all env_ok Map.empty four_requests)
             (request_on ''s'' ''q5'')) =
     Inr \<lparr>answer = ''Test response'', sources = [general_knowledge_source],
          response_session_id = ''s''\<rparr>
   \<and> sources \<lparr>answer = ''Test response'', sources = [general_knowledge_source],
              response_session_id = ''s''\<rparr> = [general_knowledge_source]"
  using sources_is_fixed_label
    [of env_ok "serve_all env_ok Map.empty four_requests" "request_on ''s'' ''q5''"
        "\<lparr>answer = ''Test response'', sources = [general_knowledge_source],
          response_session_id = ''s''\<rparr>"]
  by (simp add: query_documents_answers request_on_def session_id_or_default_def)

text \<open>
  Claim C6 as stated fails: the label of a successful response does not contain the
  separator of \<open>course_title - lesson_title\<close>.
\<close>

theorem source_label_form_counterexample:
  "result (query_documents env_ok Map.empty (request_on ''test-session-123'' ''What is Python?'')) =
     Inr \<lparr>answer = ''Test response'', sources = [general_knowledge_source],
          response_session_id = ''test-session-123''\<rparr>
   \<and> \<not> spec_label_form general_knowledge_source"
  by (simp add: query_documents_answers request_on_def session_id_or_default_def
      general_knowledge_source_def)

subsection \<open>C7: the course statistics\<close>

text \<open>
  Claim C7, as amended. The course statistics are a fixed placeholder: the count is 0 and
  the list of titles holds one entry, a notice that the full system is not initialized.
\<close>

theorem course_stats_placeholder:
  "total_courses get_course_stats = 0 \<and> length (course_titles get_course_stats) = 1"
  by (simp add: get_course_stats_def)

text \<open>
  Claim C7 as stated fails: the count is not the number of listed titles.
\<close>

theorem course_count_counterexample:
  "total_courses get_course_stats \<noteq> int (length (course_titles get_course_stats))"
  by (simp add: get_course_stats_def)

subsection \<open>C8: the empty query\<close>

text \<open>
  Claim C8. A request whose query is the empty string is not rejected: when the key is
  configured, the client is called once with a message list that ends with the empty user
  message; when the client returns a text block the request succeeds and the exchange is
  stored; and the request fails only when the client raised or returned no content.
\<close>

theorem empty_query_is_processed:
  assumes "\<not> not_getenv e ''ANTHROPIC_API_KEY''"
    and "query request = []"
  shows "create_calls (query_documents e ss request) =
           [build_create_args (sessions_get ss (session_id_or_default request)) []]
         \<and> last (messages (build_create_args (sessions_get ss (session_id_or_default request)) []))
             = \<lparr>role = ''user'', content = []\<rparr>
         \<and> (\<forall>t ts. messages_create e
                      (build_create_args (sessions_get ss (session_id_or_default request)) [])
                    = Inr (t # ts) \<longrightarrow>
               result (query_documents e ss request) =
                 Inr \<lparr>answer = t, sources = [general_knowledge_source],
                      response_session_id = session_id_or_default request\<rparr>
               \<and> sessions_get (sessions_after (query_documents e ss request))
                    (session_id_or_default request) =
                   sessions_get ss (session_id_or_default request) @
                   [\<lparr>user = [], assistant = t\<rparr>])
         \<and> (\<forall>herr. result (query_documents e ss request) = Inl herr \<longrightarrow>
               (\<exists>err. messages_create e
                        (build_create_args (sessions_get ss (session_id_or_default request)) [])
                      = Inl err)
               \<or> messages_create e
                    (build_create_args (sessions_get ss (session_id_or_default request)) [])
                  = Inr [])"
proof (intro conjI allI impI)
  show "create_calls (query_documents e ss request) =
           [build_create_args (sessions_get ss (session_id_or_default request)) []]"
    using create_calls_query_documents [OF assms(1), of ss request] assms(2) by simp
next
  show "last (messages (build_create_args (sessions_get ss (session_id_or_default request)) []))
             = \<lparr>role = ''user'', content = []\<rparr>"
    by (simp add: build_create_args_def build_messages_def)
next
  fix t ts
  assume "messages_create e
            (build_create_args (sessions_get ss (session_id_or_default request)) []) = Inr (t # ts)"
  then have ok: "messages_create e
            (build_create_args (sessions_get ss (session_id_or_default request)) (query request))
          = Inr (t # ts)"
    using assms(2) by simp
  show "result (query_documents e ss request) =
                 Inr \<lparr>answer = t, sources = [general_knowledge_source],
                      response_session_id = session_id_or_default request\<rparr>"
    by (simp add: query_documents_answers [OF assms(1) ok])
  show "sessions_get (sessions_after (query_documents e ss request))
                    (session_id_or_default request) =
                   sessions_get ss (session_id_or_default request) @
                   [\<lparr>user = [], assistant = t\<rparr>]"
    by (simp add: query_documents_answers [OF assms(1) ok] sessions_get_store_exchange assms(2))
next
  fix herr
  assume "result (query_documents e ss request) = Inl herr"
  then show "(\<exists>err. messages_create e
                        (build_create_args (sessions_get ss (session_id_or_default request)) [])
                      = Inl err)
               \<or> messages_create e
                    (build_create_args (sessions_get ss (session_id_or_default request)) [])
                  = Inr []"
    using assms
    by (auto simp: query_documents_def Let_def handler_def split: sum.splits list.splits)
qed

text \<open>
  The witness of C8: the empty query as the first request.
\<close>

theorem empty_query_is_processed_witness:
  "result (query_documents env_ok Map.empty (request_without_session [])) =
     Inr \<lparr>answer = ''Test response'', sources = [general_knowledge_source],
          response_session_id = ''default''\<rparr>
   \<and> sessions_get (sessions_after (query_documents env_ok Map.empty (request_without_session [])))
        ''default'' = [\<lparr>user = [], assistant = ''Test response''\<rparr>]"
  using empty_query_is_processed [of env_ok "request_without_session []" Map.empty]
  by (simp add: request_without_session_def session_id_or_default_def)

subsection \<open>C9: an unknown session\<close>

text \<open>
  Claim C9, as amended. The session a request reads is the one of its effective id: the
  id of the request when that is a non-empty string, \<open>default\<close> when the request has no
  id or the empty string. When nothing has been stored under the effective id, the history
  read is empty, the client is called with the current query as the only message, and when
  the client returns a text block the request succeeds and the session is created with
  that one exchange.
\<close>

theorem unknown_session_has_empty_history:
  assumes "\<not> not_getenv e ''ANTHROPIC_API_KEY''"
    and "ss (session_id_or_default request) = None"
  shows "sessions_get ss (session_id_or_default request) = []
         \<and> map messages (create_calls (query_documents e ss request)) =
             [[\<lparr>role = ''user'', content = query request\<rparr>]]
         \<and> (\<forall>t ts. messages_create e (build_create_args [] (query request)) = Inr (t # ts) \<longrightarrow>
               result (query_documents e ss request) =
                 Inr \<lparr>answer = t, sources = [general_knowledge_source],
                      response_session_id = session_id_or_default request\<rparr>
               \<and> sessions_after (query_documents e ss request) (session_id_or_default request) =
                   Some [\<lparr>user = query request, assistant = t\<rparr>])
         \<and> (\<forall>s. session_id request = Some s \<and> s \<noteq> [] \<longrightarrow> session_id_or_default request = s)
         \<and> (session_id request = None \<or> session_id request = Some [] \<longrightarrow>
              session_id_or_default request = ''default'')"
proof -
  have h: "sessions_get ss (session_id_or_default request) = []"
    using assms(2) by (rule sessions_get_None)
  have calls: "map messages (create_calls (query_documents e ss request)) =
             [[\<lparr>role = ''user'', content = query request\<rparr>]]"
    by (simp add: create_calls_query_documents [OF assms(1)] h build_create_args_def
        build_messages_def last3_def)
  have ok: "result (query_documents e ss request) =
                 Inr \<lparr>answer = t, sources = [general_knowledge_source],
                      response_session_id = session_id_or_default request\<rparr>
               \<and> sessions_after (query_documents e ss request) (session_id_or_default request) =
                   Some [\<lparr>user = query request, assistant = t\<rparr>]"
    if "messages_create e (build_create_args [] (query request)) = Inr (t # ts)" for t ts
  proof -
    from that have "messages_create e
           (build_create_args (sessions_get ss (session_id_or_default request)) (query request))
         = Inr (t # ts)"
      by (simp add: h)
    from query_documents_answers [OF assms(1) this] show ?thesis
      by (simp add: store_exchange_same h)
  qed
  have given: "\<forall>s. session_id request = Some s \<and> s \<noteq> [] \<longrightarrow> session_id_or_default request = s"
    by (simp add: session_id_or_default_def)
  have absent: "session_id request = None \<or> session_id request = Some [] \<longrightarrow>
              session_id_or_default request = ''default''"
    by (auto simp: session_id_or_default_def)
  from h calls ok given absent show ?thesis by blast
qed

text \<open>
  The witness of C9: a session id never seen before.
\<close>

theorem unknown_session_has_empty_history_witness:
  "sessions_get Map.empty ''never-seen'' = []
   \<and> map messages (create_calls (query_documents env_ok Map.empty (request_on ''never-seen'' ''hello''))) =
       [[\<lparr>role = ''user'', content = ''hello''\<rparr>]]
   \<and> result (query_documents env_ok Map.empty (request_on ''never-seen'' ''hello'')) =
       Inr \<lparr>answer = ''Test response'', sources = [general_knowledge_source],
            response_session_id = ''never-seen''\<rparr>"
  using unknown_session_has_empty_history [of env_ok Map.empty "request_on ''never-seen'' ''hello''"]
  by (simp add: request_on_def session_id_or_default_def)

text \<open>
  Claim C9 as stated fails: after one request without session id, nothing has ever been
  stored under the empty string, yet a request whose session id is the empty string is
  served with the history of \<open>default\<close> as prior context, not with an empty one.
\<close>

theorem empty_session_id_counterexample:
  "serve_all env_ok Map.empty [request_without_session ''What is Python?''] [] = None
   \<and> map messages
        (create_calls
           (query_documents env_ok
              (serve_all env_ok Map.empty [request_without_session ''What is Python?''])
              \<lparr>query = ''How do variables work?'', session_id = Some []\<rparr>)) =
       [[\<lparr>role = ''user'', content = ''What is Python?''\<rparr>,
         \<lparr>role = ''assistant'', content = ''Test response''\<rparr>,
         \<lparr>role = ''user'', content = ''How do variables work?''\<rparr>]]
   \<and> map messages
        (create_calls
           (query_documents env_ok
              (serve_all env_ok Map.empty [request_without_session ''What is Python?''])
              \<lparr>query = ''How do variables work?'', session_id = Some []\<rparr>)) \<noteq>
       [[\<lparr>role = ''user'', content = ''How do variables work?''\<rparr>]]"
  by (simp add: query_documents_answers create_calls_query_documents
      request_without_session_def session_id_or_default_def store_exchange_other
      sessions_get_store_exchange build_create_args_def build_messages_last3 last3_def
      spec_message_list_def spec_turn_pair_def)

subsection \<open>C10: the missing key\<close>

text \<open>
  Claim C10. When \<open>ANTHROPIC_API_KEY\<close> is unset, the request fails with status 500,
  the client is not called, and the sessions are unchanged.
\<close>

theorem missing_api_key_fails_before_generation:
  assumes "getenv e ''ANTHROPIC_API_KEY'' = None"
  shows "result (query_documents e ss request) =
           Inl (HTTPError 500
                  (HTTPException 500
                     ''Anthropic API key not configured. Please add ANTHROPIC_API_KEY to your .env file.''))
         \<and> create_calls (query_documents e ss request) = []
         \<and> sessions_after (query_documents e ss request) = ss"
proof -
  from assms have "not_getenv e ''ANTHROPIC_API_KEY''"
    by (simp add: not_getenv_def)
  from query_documents_no_key [OF this] show ?thesis
    by (simp add: handler_def)
qed

text \<open>
  The witness of C10: the key is unset on the fifth request of a session.
\<close>

theorem missing_api_key_fails_before_generation_witness:
  "create_calls (query_documents env_no_key (serve_all env_ok Map.empty four_requests)
                   (request_on ''s'' ''q5'')) = []
   \<and> sessions_after (query_documents env_no_key (serve_all env_ok Map.empty four_requests)
                       (request_on ''s'' ''q5'')) = serve_all env_ok Map.empty four_requests"
  using missing_api_key_fails_before_generation
    [of env_no_key "serve_all env_ok Map.empty four_requests" "request_on ''s'' ''q5''"]
  by (simp add: env_no_key_def)

end
